theory Spec2Isabelle
  imports Main "HOL-Library.Word"
begin

unbundle bit_operations_syntax

section \<open>JavaScript values and the 32-bit operators\<close>

text \<open>
  The sources are JavaScript. A JavaScript number is modelled as an \<open>int\<close>: every number
  the decoder and the core compute is an integer far below \<open>2 ^ 53\<close>, where the
  arithmetic of doubles is exact. \<open>+\<close>, \<open>-\<close> and \<open>*\<close> do not wrap. The bitwise
  operators convert their operands to 32 bits first: \<open>&\<close>, \<open>|\<close>, \<open>^\<close> and \<open><<\<close>
  give a signed 32-bit result, \<open>>>>\<close> an unsigned one, and the shift count is taken
  modulo 32.
\<close>

definition js_and :: "int \<Rightarrow> int \<Rightarrow> int" where
  "js_and x y = sint ((word_of_int x :: 32 word) AND word_of_int y)"

definition js_or :: "int \<Rightarrow> int \<Rightarrow> int" where
  "js_or x y = sint ((word_of_int x :: 32 word) OR word_of_int y)"

definition js_xor :: "int \<Rightarrow> int \<Rightarrow> int" where
  "js_xor x y = sint ((word_of_int x :: 32 word) XOR word_of_int y)"

definition js_shl :: "int \<Rightarrow> nat \<Rightarrow> int" where
  "js_shl x n = sint (push_bit (n mod 32) (word_of_int x :: 32 word))"

definition js_ushr :: "int \<Rightarrow> nat \<Rightarrow> int" where
  "js_ushr x n = uint (drop_bit (n mod 32) (word_of_int x :: 32 word))"

text \<open>
  The elements of the arrays the decoder returns: numbers, strings and booleans;
  \<open>Undefined\<close> is what reading past the end of an array gives.
\<close>

datatype jsval = Undefined | Num int | Str string | Bool bool

definition js_index :: "jsval list \<Rightarrow> nat \<Rightarrow> jsval" where
  "js_index xs i = (if i < length xs then xs ! i else Undefined)"

text \<open>A number or another value inside a template literal.\<close>

fun digits10 :: "nat \<Rightarrow> string" where
  "digits10 n =
     (if n < 10 then [''0123456789'' ! n]
      else digits10 (n div 10) @ [''0123456789'' ! (n mod 10)])"

definition num_str :: "int \<Rightarrow> string" where
  "num_str n = (if n < 0 then CHR ''-'' # digits10 (nat (- n)) else digits10 (nat n))"

fun js_toString :: "jsval \<Rightarrow> string" where
  "js_toString Undefined = ''undefined''"
| "js_toString (Num n) = num_str n"
| "js_toString (Str s) = s"
| "js_toString (Bool b) = (if b then ''true'' else ''false'')"

text \<open>A thrown \<open>Error\<close> carries its message.\<close>

datatype failure = Error string | Undefined_value

text \<open>
  The diagnostics sink only receives events; they are kept in the order of the calls.
  \<open>Logger.error\<close> is called once in the sources, with a message built from the opcode
  by \<open>Utils.toHex\<close>; the event keeps the opcode itself.
\<close>

datatype event =
    Fetched int int
  | Instr jsval jsval "jsval list"
  | Info string
  | Error_unknown_DataProc_opcode int

section \<open>What the sources import\<close>

text \<open>
  Modelled from the spec: the constant \<open>ARM_INSTR_LENGTH\<close> of \<open>constants.js\<close>, which
  is not among the sources. The spec has the branch target relative to \<open>pc + 8\<close>,
  "two instruction-widths ahead", and the fetch after a branch read from \<open>pc + 4\<close>.
\<close>

definition ARM_INSTR_LENGTH :: int where
  "ARM_INSTR_LENGTH = 4"

text \<open>
  Modelled from the spec: \<open>Utils.ror\<close> of \<open>utils.js\<close>, which is not among the
  sources: "a barrel-shifter rotate", the "standard rotate-right-by-N-bits definition on
  a 32-bit value", the result being an unsigned 32-bit value.
\<close>

definition ror :: "int \<Rightarrow> int \<Rightarrow> int" where
  "ror word shift = uint (word_rotr (nat shift) (word_of_int word :: 32 word))"

text \<open>
  \<open>Utils.toSigned\<close> is not among the sources either. The decoder applies it to the
  24-bit field of a branch and the core to a 32-bit register and to a difference of two
  numbers, and the spec describes each use in its own words. The helper is therefore an
  argument \<open>toSigned\<close> of every function that reaches it, and the two readings of the
  spec are definitions of their own.

  Modelled from the spec: \<open>Utils.toSigned\<close> as the branch decode uses it, "extract a
  24-bit signed offset (bits [23:0]), sign-extend it".
\<close>

definition toSigned24 :: "int \<Rightarrow> int" where
  "toSigned24 n = (if n mod 2 ^ 24 < 2 ^ 23 then n mod 2 ^ 24 else n mod 2 ^ 24 - 2 ^ 24)"

text \<open>
  Modelled from the spec: \<open>Utils.toSigned\<close> as the compare operation uses it,
  "explicitly reinterprets bits as two's-complement", for a 32-bit register.
\<close>

definition toSigned32 :: "int \<Rightarrow> int" where
  "toSigned32 n = (if n mod 2 ^ 32 < 2 ^ 31 then n mod 2 ^ 32 else n mod 2 ^ 32 - 2 ^ 32)"

section \<open>Decoder\<close>

text \<open>A register identifier, \<open>`r${n}`\<close>.\<close>

definition reg_name :: "int \<Rightarrow> string" where
  "reg_name n = CHR ''r'' # num_str n"

definition decodeUnknown :: "int \<Rightarrow> jsval list" where
  "decodeUnknown pc = [Num pc, Str ''???'']"

definition decodeBranch :: "(int \<Rightarrow> int) \<Rightarrow> int \<Rightarrow> int \<Rightarrow> jsval list" where
  "decodeBranch toSigned word pc =
     (let offset = js_and word 0x00ffffff
      in [Num pc, Str ''b'', Num (pc + ARM_INSTR_LENGTH * 2 + toSigned offset * 4)])"

text \<open>
  In \<open>word >>> 25 & 1 === 1\<close> the comparison binds tighter than \<open>&\<close>: the value is
  \<open>(word >>> 25) & true\<close>, the number 0 or 1, and the \<open>if\<close> tests whether it is
  non-zero. The opcode is looked at first: an unknown one returns before the operand is.
\<close>

definition decodeDataProc :: "int \<Rightarrow> int \<Rightarrow> event list \<times> (failure + jsval list)" where
  "decodeDataProc word pc =
     (let opcode = js_and (js_ushr word 21) 0xf;
          op = (if opcode = 9 then Some ''teq''
                else if opcode = 0xa then Some ''cmp''
                else if opcode = 0xd then Some ''mov''
                else None)
      in case op of
           None \<Rightarrow> ([Error_unknown_DataProc_opcode opcode], Inr (decodeUnknown pc))
         | Some op \<Rightarrow>
            (let immediate = js_and (js_ushr word 25) 1;
                 Rn = reg_name (js_and (js_ushr word 16) 0xf);
                 Rd = reg_name (js_and (js_ushr word 12) 0xf)
             in if immediate \<noteq> 0
                then ([], Inr [Num pc, Str op, Str Rd, Str Rn,
                               Num (ror (js_and word 0xff) (js_and (js_ushr word 8) 0xf * 2))])
                else ([], Inl (Error ''TODO: Op2 is a register''))))"

definition decodeDataTransfer :: "int \<Rightarrow> int \<Rightarrow> failure + jsval list" where
  "decodeDataTransfer word pc =
     (let I = (js_and (js_ushr word 25) 1 = 1);
          P = (js_and (js_ushr word 24) 1 = 1);
          U = (js_and (js_ushr word 23) 1 = 1);
          op = (if js_and (js_ushr word 20) 1 = 1 then ''ldr'' else ''str'');
          Rn = reg_name (js_and (js_ushr word 16) 0xf);
          Rd = reg_name (js_and (js_ushr word 12) 0xf)
      in if \<not> I
         then (let offset = js_and word 0xfff;
                   offset = (if \<not> U then - offset else offset)
               in Inr [Num pc, Str op, Str Rd, Str Rn, Bool P, Num offset])
         else Inl (Error ''Shifted register''))"

definition decode :: "(int \<Rightarrow> int) \<Rightarrow> int \<Rightarrow> int \<Rightarrow> event list \<times> (failure + jsval list)" where
  "decode toSigned word pc =
     (let cls = js_and (js_ushr word 24) 0xf
      in if cls = 0xa then ([], Inr (decodeBranch toSigned word pc))
         else if cls = 0 \<or> cls = 1 \<or> cls = 2 \<or> cls = 3 then decodeDataProc word pc
         else if cls = 4 \<or> cls = 5 then ([], decodeDataTransfer word pc)
         else ([], Inr (decodeUnknown pc)))"

section \<open>Processor core\<close>

text \<open>
  The register file \<open>this._r\<close> is one object. Its properties \<open>pc\<close>, \<open>cpsr\<close> and
  \<open>sprs\<close> are there from the constructor on and are never deleted: they are fields of
  the record. Every other property (\<open>r0\<close> to \<open>r14\<close>, and whatever an instruction
  creates, \<open>r15\<close> for one) is in the map \<open>r\<close>. \<open>reg_get\<close> and \<open>reg_set\<close> are the
  indexed accesses \<open>this._r[name]\<close>, for any name. The memory collaborator is the function
  \<open>mmu\<close>, its \<open>readWord\<close>; the core never writes to it outside \<open>setBIOS\<close>.
  \<open>_branched\<close> is only ever tested for truth: undefined counts as \<open>False\<close>.
\<close>

record arm7tdmi =
  mmu :: "int \<Rightarrow> int"
  r :: "string \<rightharpoonup> int"
  pc :: int
  cpsr :: int
  sprs :: int
  fetched :: "(int \<times> int) option"
  decoded :: "jsval list option"
  branched :: bool
  logger :: "event list"

definition reg_get :: "arm7tdmi \<Rightarrow> string \<Rightarrow> int option" where
  "reg_get s name =
     (if name = ''pc'' then Some (pc s)
      else if name = ''cpsr'' then Some (cpsr s)
      else if name = ''sprs'' then Some (sprs s)
      else r s name)"

definition reg_set :: "string \<Rightarrow> int \<Rightarrow> arm7tdmi \<Rightarrow> arm7tdmi" where
  "reg_set name v s =
     (if name = ''pc'' then s\<lparr>pc := v\<rparr>
      else if name = ''cpsr'' then s\<lparr>cpsr := v\<rparr>
      else if name = ''sprs'' then s\<lparr>sprs := v\<rparr>
      else s\<lparr>r := (r s)(name \<mapsto> v)\<rparr>)"

definition new_ARM7TDMI :: "(int \<Rightarrow> int) \<Rightarrow> arm7tdmi" where
  "new_ARM7TDMI MMU =
     \<lparr> mmu = MMU,
       r = map_of [(''r0'', 0), (''r1'', 0), (''r2'', 0), (''r3'', 0), (''r4'', 0),
                   (''r5'', 0), (''r6'', 0), (''r7'', 0), (''r8'', 0), (''r9'', 0),
                   (''r10'', 0), (''r11'', 0), (''r12'', 0), (''r13'', 0), (''r14'', 0)],
       pc = 0, cpsr = 0, sprs = 0,
       fetched = None, decoded = None, branched = False, logger = [] \<rparr>"

text \<open>
  A call of the core either returns, or an exception leaves it with the state as it is
  at that moment. \<open>Undefined_value\<close> is not an exception of the sources: it marks the
  places where JavaScript would go on computing with \<open>undefined\<close> (a register the file
  does not hold, an operand the descriptor does not have), which the model does not follow.
\<close>

datatype outcome = Done arm7tdmi | Raised failure arm7tdmi

fun and_then :: "outcome \<Rightarrow> (arm7tdmi \<Rightarrow> outcome) \<Rightarrow> outcome" where
  "and_then (Done s) f = f s"
| "and_then (Raised e s) f = Raised e s"

definition log :: "event \<Rightarrow> arm7tdmi \<Rightarrow> arm7tdmi" where
  "log e s = s\<lparr>logger := logger s @ [e]\<rparr>"

subsection \<open>Accessors\<close>

definition getPC :: "arm7tdmi \<Rightarrow> int" where
  "getPC s = pc s"

definition getCPSR :: "arm7tdmi \<Rightarrow> int" where
  "getCPSR s = cpsr s"


definition setNZCV :: "int \<Rightarrow> arm7tdmi \<Rightarrow> arm7tdmi" where
  "setNZCV bits s = s\<lparr>cpsr := js_ushr (js_or (js_and (cpsr s) 0x07ffffff) (js_shl bits 28)) 0\<rparr>"

definition getIFT :: "arm7tdmi \<Rightarrow> int" where
  "getIFT s = js_ushr (cpsr s) 5"

definition setIFT :: "int \<Rightarrow> arm7tdmi \<Rightarrow> arm7tdmi" where
  "setIFT bits s = s\<lparr>cpsr := js_ushr (js_or (js_and (cpsr s) 0xffffff1f) (js_shl bits 5)) 0\<rparr>"

subsection \<open>Flags\<close>

definition setN :: "bool \<Rightarrow> arm7tdmi \<Rightarrow> arm7tdmi" where
  "setN flag s = (if flag then s\<lparr>cpsr := js_or (cpsr s) 0x80000000\<rparr>
                  else s\<lparr>cpsr := js_and (cpsr s) 0x7fffffff\<rparr>)"

definition setZ :: "bool \<Rightarrow> arm7tdmi \<Rightarrow> arm7tdmi" where
  "setZ flag s = (if flag then s\<lparr>cpsr := js_or (cpsr s) 0x40000000\<rparr>
                  else s\<lparr>cpsr := js_and (cpsr s) 0xbfffffff\<rparr>)"

definition setC :: "bool \<Rightarrow> arm7tdmi \<Rightarrow> arm7tdmi" where
  "setC flag s = (if flag then s\<lparr>cpsr := js_or (cpsr s) 0x20000000\<rparr>
                  else s\<lparr>cpsr := js_and (cpsr s) 0xdfffffff\<rparr>)"

definition setV :: "bool \<Rightarrow> arm7tdmi \<Rightarrow> arm7tdmi" where
  "setV flag s = (if flag then s\<lparr>cpsr := js_or (cpsr s) 0x10000000\<rparr>
                  else s\<lparr>cpsr := js_and (cpsr s) 0xefffffff\<rparr>)"

subsection \<open>Instructions\<close>

definition op_nop :: "arm7tdmi \<Rightarrow> outcome" where
  "op_nop s = Done s"

definition op_b :: "int \<Rightarrow> arm7tdmi \<Rightarrow> outcome" where
  "op_b addr s = Done (s\<lparr>pc := addr, branched := True\<rparr>)"

text \<open>
  \<open>diff\<close> is a JavaScript number, the exact difference: \<open>Op2\<close> goes into it as it is.
  The carry reads the register again, after the first two flags are written.
\<close>

definition op_cmp :: "(int \<Rightarrow> int) \<Rightarrow> jsval \<Rightarrow> string \<Rightarrow> int \<Rightarrow> arm7tdmi \<Rightarrow> outcome" where
  "op_cmp toSigned Rd Rn Op2 s =
     (case reg_get s Rn of
        None \<Rightarrow> Raised Undefined_value s
      | Some rn \<Rightarrow>
         (let sRn = toSigned rn;
              diff = sRn - Op2;
              s1 = setN (toSigned diff < 0) s;
              s2 = setZ (diff = 0) s1
          in case reg_get s2 Rn of
               None \<Rightarrow> Raised Undefined_value s2
             | Some rn' \<Rightarrow> Done (setV (diff < - 2147483648) (setC (\<not> (Op2 > rn')) s2))))"

definition op_mov :: "string \<Rightarrow> jsval \<Rightarrow> int \<Rightarrow> arm7tdmi \<Rightarrow> outcome" where
  "op_mov Rd Rn Op2 s = Done (setZ (Op2 = 0) (reg_set Rd Op2 s))"

definition op_ldr :: "string \<Rightarrow> string \<Rightarrow> bool \<Rightarrow> int \<Rightarrow> arm7tdmi \<Rightarrow> outcome" where
  "op_ldr Rd Rn P offset s =
     (if P then (case reg_get s Rn of
                   None \<Rightarrow> Raised Undefined_value s
                 | Some base \<Rightarrow> Done (reg_set Rd (mmu s (base + offset)) s))
      else Done s)"

text \<open>A register the file does not hold reads as \<open>undefined\<close>, which \<open>^\<close> takes as 0.\<close>

definition op_teq :: "jsval \<Rightarrow> string \<Rightarrow> int \<Rightarrow> arm7tdmi \<Rightarrow> outcome" where
  "op_teq Rd Rn Op2 s =
     (let xor = js_ushr (js_xor (case reg_get s Rn of None \<Rightarrow> 0 | Some v \<Rightarrow> v) Op2) 0
      in Done (setZ (xor = 0) s))"

text \<open>
  The dispatch table \<open>_opcodes\<close>: the key is the opcode string. A value that is not one
  of the six keys finds nothing (the decoder never returns the name of a property that
  every object inherits).
\<close>

definition opcodes :: "jsval \<Rightarrow> string option" where
  "opcodes op =
     (case op of
        Str k \<Rightarrow> if k \<in> set [''???'', ''b'', ''cmp'', ''mov'', ''ldr'', ''teq''] then Some k else None
      | _ \<Rightarrow> None)"

text \<open>\<open>handler.apply(this, operands)\<close>: the operands are bound by position.\<close>

definition apply_handler :: "(int \<Rightarrow> int) \<Rightarrow> string \<Rightarrow> jsval list \<Rightarrow> arm7tdmi \<Rightarrow> outcome" where
  "apply_handler toSigned k args s =
     (if k = ''???'' then op_nop s
      else if k = ''b'' then
        (case args of Num addr # _ \<Rightarrow> op_b addr s | _ \<Rightarrow> Raised Undefined_value s)
      else if k = ''cmp'' then
        (case args of Rd # Str Rn # Num Op2 # _ \<Rightarrow> op_cmp toSigned Rd Rn Op2 s
                    | _ \<Rightarrow> Raised Undefined_value s)
      else if k = ''mov'' then
        (case args of Str Rd # Rn # Num Op2 # _ \<Rightarrow> op_mov Rd Rn Op2 s
                    | _ \<Rightarrow> Raised Undefined_value s)
      else if k = ''ldr'' then
        (case args of Str Rd # Str Rn # Bool P # Num offset # _ \<Rightarrow> op_ldr Rd Rn P offset s
                    | _ \<Rightarrow> Raised Undefined_value s)
      else if k = ''teq'' then
        (case args of Rd # Str Rn # Num Op2 # _ \<Rightarrow> op_teq Rd Rn Op2 s
                    | _ \<Rightarrow> Raised Undefined_value s)
      else Raised Undefined_value s)"

subsection \<open>The three phases\<close>

text \<open>
  The read address: the target of a decoded branch first, then the slot after \<open>pc\<close>
  when a branch has just executed, then \<open>pc\<close>.
\<close>

definition fetch_address :: "arm7tdmi \<Rightarrow> jsval" where
  "fetch_address s =
     (case (case decoded s of
              None \<Rightarrow> None
            | Some d \<Rightarrow> if js_index d 1 = Str ''b'' then Some (js_index d 2) else None) of
        Some target \<Rightarrow> target
      | None \<Rightarrow> if branched s then Num (pc s + ARM_INSTR_LENGTH) else Num (pc s))"

definition core_fetch :: "arm7tdmi \<Rightarrow> outcome" where
  "core_fetch s =
     (let readFrom = fetch_address s;
          s1 = (if branched s then s\<lparr>branched := False, pc := pc s + 4\<rparr> else s)
      in case readFrom of
           Num a \<Rightarrow>
             (let s2 = s1\<lparr>fetched := Some (a, mmu s1 a)\<rparr>;
                  s3 = log (Fetched a (mmu s1 a)) s2
              in Done (s3\<lparr>pc := pc s3 + 4\<rparr>))
         | _ \<Rightarrow> Raised Undefined_value s1)"

text \<open>
  \<open>Decoder.decode(...this._fetched)\<close> passes the two elements of the slot in their
  order: the read address first, the word second.
\<close>

definition core_decode :: "(int \<Rightarrow> int) \<Rightarrow> arm7tdmi \<Rightarrow> outcome" where
  "core_decode toSigned s =
     (case fetched s of
        None \<Rightarrow> Done s
      | Some (readFrom, word) \<Rightarrow>
         (case decode toSigned readFrom word of
            (evs, Inl e) \<Rightarrow> Raised e (s\<lparr>logger := logger s @ evs\<rparr>)
          | (evs, Inr d) \<Rightarrow> Done (s\<lparr>logger := logger s @ evs, decoded := Some d\<rparr>)))"

text \<open>The two \<open>splice\<close> calls take \<open>pc\<close> and \<open>op\<close> off the array in the slot itself.\<close>

definition core_execute :: "(int \<Rightarrow> int) \<Rightarrow> arm7tdmi \<Rightarrow> outcome" where
  "core_execute toSigned s =
     (case decoded s of
        None \<Rightarrow> Done s
      | Some d \<Rightarrow>
         (let pc0 = js_index d 0;
              op = js_index d 1;
              args = drop 2 d;
              s1 = s\<lparr>decoded := Some args\<rparr>
          in case opcodes op of
               Some k \<Rightarrow> apply_handler toSigned k args (log (Instr pc0 op args) s1)
             | None \<Rightarrow> Done (log (Info (js_toString op @ '' unimplemented'')) s1)))"

definition boot :: "(int \<Rightarrow> int) \<Rightarrow> arm7tdmi \<Rightarrow> outcome" where
  "boot toSigned s = and_then (and_then (core_fetch s) (core_decode toSigned)) core_fetch"

definition execute :: "(int \<Rightarrow> int) \<Rightarrow> arm7tdmi \<Rightarrow> outcome" where
  "execute toSigned s =
     and_then (and_then (core_execute toSigned s) (core_decode toSigned)) core_fetch"

subsection \<open>Reading an outcome\<close>

fun state_of :: "outcome \<Rightarrow> arm7tdmi" where
  "state_of (Done s) = s"
| "state_of (Raised e s) = s"

fun failure_of :: "outcome \<Rightarrow> failure option" where
  "failure_of (Done s) = None"
| "failure_of (Raised e s) = Some e"

section \<open>The notions of the specification\<close>

text \<open>Two's-complement sign extension from 24 bits.\<close>

definition sign_extend_24 :: "int \<Rightarrow> int" where
  "sign_extend_24 f = sint (word_of_int f :: 24 word)"


section \<open>Memories and cores for the concrete runs\<close>

text \<open>A memory that reads 0 everywhere.\<close>

definition zero_memory :: "int \<Rightarrow> int" where
  "zero_memory a = 0"

text \<open>A memory with the branch \<open>0xEA000002\<close> (to address 16) at address 0.\<close>

definition branch_at_0 :: "int \<Rightarrow> int" where
  "branch_at_0 a = (if a = 0 then 0xEA000002 else 0)"

text \<open>A core whose status register has bit 27 set and every other bit clear.\<close>

definition core_with_bit_27 :: arm7tdmi where
  "core_with_bit_27 = (new_ARM7TDMI zero_memory)\<lparr>cpsr := 0x08000000\<rparr>"

text \<open>A core after \<open>mov r0, #0\<close>: the Zero flag is set, the status register is \<open>0x40000000\<close>.\<close>

definition core_after_mov_0 :: arm7tdmi where
  "core_after_mov_0 = state_of (op_mov ''r0'' (Str ''r0'') 0 (new_ARM7TDMI zero_memory))"

section \<open>The 32-bit operators on the bits of an integer\<close>

lemma js_and_int: "js_and x y = signed_take_bit 31 (x AND y)"
  by (simp add: js_and_def word_wi_log_defs sint_sbintrunc')

lemma js_or_int: "js_or x y = signed_take_bit 31 (x OR y)"
  by (simp add: js_or_def word_wi_log_defs sint_sbintrunc')

lemma js_ushr_int: "js_ushr x n = drop_bit (n mod 32) (take_bit 32 x)"
  by (simp add: js_ushr_def unsigned_drop_bit_eq uint_word_of_int_eq)

lemma js_shl_int: "js_shl x n = signed_take_bit 31 (push_bit (n mod 32) x)"
proof -
  have "sint (push_bit (n mod 32) (word_of_int x :: 32 word))
          = signed_take_bit 31 (push_bit (n mod 32) x)"
    by (rule bit_eqI) (auto simp add: bit_simps)
  then show ?thesis by (simp add: js_shl_def)
qed

lemma min_31: "k < 32 \<Longrightarrow> min 31 k = (k :: nat)"
  by simp

lemma bit_js_and: "k < 32 \<Longrightarrow> bit (js_and x y) k \<longleftrightarrow> bit x k \<and> bit y k"
  by (simp add: js_and_int bit_signed_take_bit_iff bit_and_iff min_31)

lemma bit_js_or: "k < 32 \<Longrightarrow> bit (js_or x y) k \<longleftrightarrow> bit x k \<or> bit y k"
  by (simp add: js_or_int bit_signed_take_bit_iff bit_or_iff min_31)

lemma bit_js_ushr: "n < 32 \<Longrightarrow> bit (js_ushr x n) k \<longleftrightarrow> n + k < 32 \<and> bit x (n + k)"
  by (auto simp add: js_ushr_int bit_drop_bit_eq bit_take_bit_iff)

lemma bit_js_shl: "n < 32 \<Longrightarrow> k < 32 \<Longrightarrow> bit (js_shl x n) k \<longleftrightarrow> n \<le> k \<and> bit x (k - n)"
  by (simp add: js_shl_int bit_signed_take_bit_iff bit_push_bit_iff min_31)


lemma bit_flag_Z: "bit (0x40000000 :: int) k \<longleftrightarrow> k = 30"
proof -
  have "(0x40000000 :: int) = 2 ^ 30" by simp
  then show ?thesis by (simp only: bit_exp_iff) auto
qed




lemma bit_clear_Z: "bit (0xbfffffff :: int) k \<longleftrightarrow> k < 32 \<and> k \<noteq> 30"
proof -
  have "(0xbfffffff :: int) = mask 30 OR 2 ^ 31" by (simp add: mask_eq_exp_minus_1)
  then show ?thesis by (simp only: bit_or_iff bit_mask_iff bit_exp_iff) auto
qed




lemma bit_setZ: "k < 32 \<Longrightarrow> bit (cpsr (setZ b s)) k = (if k = 30 then b else bit (cpsr s) k)"
  by (simp add: setZ_def bit_js_and bit_js_or bit_flag_Z bit_clear_Z)




lemma setZ_state: "setZ b s = s\<lparr>cpsr := cpsr (setZ b s)\<rparr>"
  by (simp add: setZ_def)

lemma setC_state: "setC b s = s\<lparr>cpsr := cpsr (setC b s)\<rparr>"
  by (simp add: setC_def)

lemma setV_state: "setV b s = s\<lparr>cpsr := cpsr (setV b s)\<rparr>"
  by (simp add: setV_def)

lemma reg_name_not_special:
  "reg_name n \<noteq> ''pc''" "reg_name n \<noteq> ''cpsr''" "reg_name n \<noteq> ''sprs''"
  by (simp_all add: reg_name_def)

text \<open>A field of a word, as the decoder extracts it.\<close>

lemma js_and_mask: "n < 32 \<Longrightarrow> js_and x (mask n) = take_bit n x"
proof -
  assume n: "n < 32"
  have "take_bit n x < 2 ^ n" by simp
  also have "(2::int) ^ n \<le> 2 ^ 31" using n by (intro power_increasing) simp_all
  finally have "take_bit n x < 2 ^ 31" .
  moreover have "- (2 ^ 31) \<le> take_bit n x"
    by (rule order_trans [of _ 0]) simp_all
  ultimately have "signed_take_bit 31 (take_bit n x) = take_bit n x"
    by (simp add: signed_take_bit_int_eq_self_iff)
  then show ?thesis by (simp add: js_and_int take_bit_eq_mask)
qed

lemma js_and_0xf: "js_and x 0xf = take_bit 4 x"
  using js_and_mask [of 4 x] by (simp add: mask_eq_exp_minus_1)
lemma js_and_1: "js_and x 1 = of_bool (odd x)"
  using js_and_mask [of 1 x] by (simp add: mask_eq_exp_minus_1 take_bit_Suc_0 mod_2_eq_odd)
lemma js_and_0xff: "js_and x 0xff = take_bit 8 x"
  using js_and_mask [of 8 x] by (simp add: mask_eq_exp_minus_1)
lemma js_and_0xfff: "js_and x 0xfff = take_bit 12 x"
  using js_and_mask [of 12 x] by (simp add: mask_eq_exp_minus_1)
lemma js_and_0xffffff: "js_and x 0x00ffffff = take_bit 24 x"
  using js_and_mask [of 24 x] by (simp add: mask_eq_exp_minus_1)

lemma field4: "k \<le> 28 \<Longrightarrow> js_and (js_ushr w k) 0xf = take_bit 4 (drop_bit k w)"
proof -
  assume k: "k \<le> 28"
  have "take_bit 4 (drop_bit k (take_bit 32 w)) = take_bit 4 (drop_bit k w)"
    using k by (intro bit_eqI) (auto simp add: bit_take_bit_iff bit_drop_bit_eq)
  with k show ?thesis by (simp add: js_and_0xf js_ushr_int)
qed

lemma field1: "k < 32 \<Longrightarrow> js_and (js_ushr w k) 1 = of_bool (bit w k)"
proof -
  assume k: "k < 32"
  have "odd (drop_bit k (take_bit 32 w)) = bit (take_bit 32 w) k"
    by (simp only: bit_iff_odd_drop_bit)
  also have "\<dots> = bit w k" using k by (simp add: bit_take_bit_iff)
  finally show ?thesis using k by (simp add: js_and_1 js_ushr_int)
qed

lemma class_field: "js_and (js_ushr word 24) 0xf = take_bit 4 (drop_bit 24 word)"
  by (simp add: field4)

lemma opcode_field: "js_and (js_ushr word 21) 0xf = take_bit 4 (drop_bit 21 word)"
  by (simp add: field4)

lemma data_processing_class:
  assumes "take_bit 4 (drop_bit 24 word) < (4 :: int)"
  shows "take_bit 4 (drop_bit 24 word) \<in> {0, 1, 2, 3}"
proof -
  define c :: int where "c = take_bit 4 (drop_bit 24 word)"
  have "0 \<le> c" by (simp add: c_def)
  moreover have "c < 4" using assms by (simp add: c_def)
  ultimately have "c = 0 \<or> c = 1 \<or> c = 2 \<or> c = 3" by arith
  then show ?thesis by (simp add: c_def)
qed

text \<open>The 24-bit reading of \<open>toSigned\<close> is the sign extension of the word library.\<close>

lemma shift_mod_24:
  "(f + 2 ^ 23) mod 2 ^ 24 - 2 ^ 23 =
     (if f mod 2 ^ 24 < 2 ^ 23 then f mod 2 ^ 24 else f mod 2 ^ 24 - 2 ^ 24)" for f :: int
proof -
  define m where "m = f mod 2 ^ 24"
  have m: "0 \<le> m" "m < 2 ^ 24" by (simp_all add: m_def)
  have e: "(f + 2 ^ 23) mod 2 ^ 24 = (m + 2 ^ 23) mod 2 ^ 24"
    unfolding m_def by (simp add: mod_add_left_eq)
  show ?thesis
  proof (cases "m < 2 ^ 23")
    case True
    then have "(m + 2 ^ 23) mod 2 ^ 24 = m + 2 ^ 23"
      using m by (intro mod_pos_pos_trivial) simp_all
    with True e show ?thesis by (simp add: m_def)
  next
    case False
    have "(m + 2 ^ 23) mod 2 ^ 24 = (m + 2 ^ 23 - 2 ^ 24) mod 2 ^ 24"
      using mod_add_self2 [of "m + 2 ^ 23 - 2 ^ 24" "2 ^ 24"] by (simp only: diff_add_cancel)
    also have "\<dots> = m + 2 ^ 23 - 2 ^ 24"
      using m False by (intro mod_pos_pos_trivial) simp_all
    finally show ?thesis using False e by (simp add: m_def)
  qed
qed

lemma toSigned24_sign_extend: "toSigned24 f = sign_extend_24 f"
proof -
  have "sign_extend_24 f = signed_take_bit 23 f"
    by (simp add: sign_extend_24_def sint_sbintrunc')
  also have "\<dots> = take_bit 24 (f + 2 ^ 23) - 2 ^ 23"
    by (simp add: signed_take_bit_eq_take_bit_shift)
  also have "\<dots> = toSigned24 f"
    unfolding toSigned24_def take_bit_eq_mod by (rule shift_mod_24)
  finally show ?thesis by simp
qed





lemmas js_int = js_and_int js_or_int js_ushr_int js_shl_int

lemmas decoder_defs = decode_def decodeBranch_def decodeDataProc_def decodeDataTransfer_def
  decodeUnknown_def ARM_INSTR_LENGTH_def

lemmas core_defs = boot_def execute_def core_fetch_def core_decode_def core_execute_def
  fetch_address_def js_index_def opcodes_def apply_handler_def op_b_def op_nop_def log_def
  Let_def

text \<open>
  The run of \<open>boot\<close> and of one \<open>execute\<close> on a new core whose memory holds the
  branch \<open>0xEA000002\<close> at address 0.
\<close>

lemma decode_branch_to_16:
  "decode toSigned24 0xEA000002 0 = ([], Inr [Num 0, Str ''b'', Num 16])"
  by (simp add: decoder_defs js_int toSigned24_def)

lemma boot_branch_at_0:
  "boot toSigned24 (new_ARM7TDMI branch_at_0) =
     Done ((new_ARM7TDMI branch_at_0)
       \<lparr>pc := 8, fetched := Some (4, 0), decoded := Some [Num 0xEA000002, Str ''???''],
        logger := [Fetched 0 0xEA000002, Error_unknown_DataProc_opcode 0, Fetched 4 0]\<rparr>)"
  by (simp add: core_defs decoder_defs js_int new_ARM7TDMI_def branch_at_0_def)

lemma execute_after_boot_branch_at_0:
  "execute toSigned24 ((new_ARM7TDMI branch_at_0)
       \<lparr>pc := 8, fetched := Some (4, 0), decoded := Some [Num 0xEA000002, Str ''???''],
        logger := [Fetched 0 0xEA000002, Error_unknown_DataProc_opcode 0, Fetched 4 0]\<rparr>) =
     Done ((new_ARM7TDMI branch_at_0)
       \<lparr>pc := 12, fetched := Some (8, 0), decoded := Some [Num 0, Str ''???''],
        logger := [Fetched 0 0xEA000002, Error_unknown_DataProc_opcode 0, Fetched 4 0,
                   Instr (Num 0xEA000002) (Str ''???'') [],
                   Error_unknown_DataProc_opcode 0, Fetched 8 0]\<rparr>)"
  by (simp add: core_defs decoder_defs js_int new_ARM7TDMI_def branch_at_0_def)

section \<open>Decoder: branch\<close>

text \<open>
  C3. For every word whose class bits [27:24] are 1010 and every program counter \<open>p\<close>,
  \<open>decode\<close> returns the branch descriptor \<open>[p, 'b', target]\<close> with
  \<open>target = p + 8 + 4 * sign_extend_24 f\<close>, where \<open>f\<close> is the field in bits [23:0]
  of the word. \<open>Utils.toSigned\<close> is taken as the specification describes it for the
  branch decode, the sign extension of the 24-bit field.
\<close>

theorem branch_offset_law:
  assumes "take_bit 4 (drop_bit 24 word) = 10"
  shows "decode toSigned24 word p =
           ([], Inr [Num p, Str ''b'', Num (p + 8 + 4 * sign_extend_24 (take_bit 24 word))])"
  using assms
  by (simp add: decode_def class_field decodeBranch_def js_and_0xffffff ARM_INSTR_LENGTH_def
      toSigned24_sign_extend)

theorem branch_offset_law_witness:
  "take_bit 4 (drop_bit 24 (0xEAFFFFFE :: int)) = 10 \<and>
   sign_extend_24 (take_bit 24 0xEAFFFFFE) = - 2 \<and>
   decode toSigned24 0xEAFFFFFE 0x100 = ([], Inr [Num 0x100, Str ''b'', Num 0x100])"
proof -
  have h: "take_bit 4 (drop_bit 24 (0xEAFFFFFE :: int)) = 10" by simp
  have s: "sign_extend_24 (take_bit 24 0xEAFFFFFE) = - 2"
    by (simp add: sign_extend_24_def)
  show ?thesis using h s branch_offset_law [OF h, of "0x100"] by simp
qed

section \<open>Decoder: data processing\<close>

text \<open>
  C4, as the code has it. For every word of the data-processing classes (bits [27:24] in
  0000 to 0011) whose immediate flag (bit 25) is clear and whose opcode field (bits
  [24:21]) is one of 0x9, 0xA and 0xD, and for every program counter, \<open>decode\<close> raises:
  it throws the error "TODO: Op2 is a register" and returns no descriptor.
\<close>

theorem register_operand_raises:
  assumes "take_bit 4 (drop_bit 24 word) < 4"
    and "\<not> bit word 25"
    and "take_bit 4 (drop_bit 21 word) \<in> {9, 10, 13}"
  shows "decode toSigned word p = ([], Inl (Error ''TODO: Op2 is a register''))"
proof -
  have cls: "take_bit 4 (drop_bit 24 word) \<in> {0, 1, 2, 3}"
    using assms(1) by (rule data_processing_class)
  have imm: "js_and (js_ushr word 25) 1 = 0" using assms(2) by (simp add: field1)
  from cls have "decode toSigned word p = decodeDataProc word p"
    by (auto simp add: decode_def class_field)
  also have "\<dots> = ([], Inl (Error ''TODO: Op2 is a register''))"
    using assms(3) imm by (auto simp add: decodeDataProc_def opcode_field)
  finally show ?thesis .
qed

theorem register_operand_raises_witness:
  "take_bit 4 (drop_bit 24 (0x01400000 :: int)) < 4 \<and> \<not> bit (0x01400000 :: int) 25 \<and>
   take_bit 4 (drop_bit 21 (0x01400000 :: int)) \<in> {9, 10, 13} \<and>
   decode toSigned24 0x01400000 8 = ([], Inl (Error ''TODO: Op2 is a register''))"
proof -
  have h1: "take_bit 4 (drop_bit 24 (0x01400000 :: int)) < 4" by simp
  have h2: "\<not> bit (0x01400000 :: int) 25" by simp
  have h3: "take_bit 4 (drop_bit 21 (0x01400000 :: int)) \<in> {9, 10, 13}" by simp
  show ?thesis using h1 h2 h3 register_operand_raises [OF h1 h2 h3] by simp
qed

text \<open>
  C4 as it is stated asks for the failure on every data-processing word with the
  immediate flag clear. The opcode is examined first: the word 0 has class 0000, bit 25
  clear and opcode 0, and \<open>decode\<close> logs the error event and returns the Unknown
  descriptor instead of raising.
\<close>

theorem register_operand_unknown_opcode:
  "take_bit 4 (drop_bit 24 (0 :: int)) = 0 \<and> \<not> bit (0 :: int) 25 \<and>
   decode toSigned24 0 8 = ([Error_unknown_DataProc_opcode 0], Inr [Num 8, Str ''???''])"
  by (simp add: decode_def class_field decodeDataProc_def opcode_field decodeUnknown_def)

text \<open>
  C8. For every data-processing word whose opcode field (bits [24:21]) is none of 0x9, 0xA
  and 0xD, \<open>decode\<close> logs one error event and returns the Unknown descriptor, without
  raising; the execute phase, given that descriptor, returns without raising, and leaves
  a state that differs from the earlier one in the decoded slot (emptied by the two
  \<open>splice\<close> calls) and in the log (one instruction event) only: no register, no flag,
  no memory cell and no other field changes.
\<close>

theorem unknown_opcode_safety:
  assumes "take_bit 4 (drop_bit 24 word) < 4"
    and "take_bit 4 (drop_bit 21 word) \<notin> {9, 10, 13}"
  shows "decode toSigned word p =
           ([Error_unknown_DataProc_opcode (take_bit 4 (drop_bit 21 word))],
            Inr [Num p, Str ''???'']) \<and>
         core_execute toSigned (s\<lparr>decoded := Some [Num p, Str ''???'']\<rparr>) =
           Done (s\<lparr>decoded := Some [],
                   logger := logger s @ [Instr (Num p) (Str ''???'') []]\<rparr>)"
proof -
  have cls: "take_bit 4 (drop_bit 24 word) \<in> {0, 1, 2, 3}"
    using assms(1) by (rule data_processing_class)
  then have "decode toSigned word p = decodeDataProc word p"
    by (auto simp add: decode_def class_field)
  also have "\<dots> = ([Error_unknown_DataProc_opcode (take_bit 4 (drop_bit 21 word))],
                     Inr [Num p, Str ''???''])"
    using assms(2) by (simp add: decodeDataProc_def opcode_field decodeUnknown_def)
  finally have d: "decode toSigned word p =
      ([Error_unknown_DataProc_opcode (take_bit 4 (drop_bit 21 word))], Inr [Num p, Str ''???''])" .
  have e: "core_execute toSigned (s\<lparr>decoded := Some [Num p, Str ''???'']\<rparr>) =
           Done (s\<lparr>decoded := Some [],
                   logger := logger s @ [Instr (Num p) (Str ''???'') []]\<rparr>)"
    by (simp add: core_execute_def js_index_def opcodes_def apply_handler_def op_nop_def log_def)
  from d e show ?thesis by simp
qed

theorem unknown_opcode_safety_witness:
  "take_bit 4 (drop_bit 24 (0xE0812003 :: int)) < 4 \<and>
   take_bit 4 (drop_bit 21 (0xE0812003 :: int)) \<notin> {9, 10, 13} \<and>
   decode toSigned32 0xE0812003 8 = ([Error_unknown_DataProc_opcode 4], Inr [Num 8, Str ''???'']) \<and>
   core_execute toSigned32 ((new_ARM7TDMI zero_memory)\<lparr>decoded := Some [Num 8, Str ''???'']\<rparr>) =
     Done ((new_ARM7TDMI zero_memory)\<lparr>decoded := Some [],
             logger := [Instr (Num 8) (Str ''???'') []]\<rparr>)"
proof -
  have h1: "take_bit 4 (drop_bit 24 (0xE0812003 :: int)) < 4" by simp
  have h2: "take_bit 4 (drop_bit 21 (0xE0812003 :: int)) \<notin> {9, 10, 13}" by simp
  have l: "logger (new_ARM7TDMI zero_memory) = []" by (simp add: new_ARM7TDMI_def)
  show ?thesis
    using h1 h2 unknown_opcode_safety [OF h1 h2, of toSigned32 8 "new_ARM7TDMI zero_memory"]
    by (simp add: l)
qed

section \<open>Decoder: data transfer\<close>

text \<open>
  C9. For every data-transfer word (class bits [27:24] 0100 or 0101) with the load bit
  (bit 20) clear, \<open>decode\<close> returns the store descriptor
  \<open>[p, 'str', Rd, Rn, P, offset]\<close>; the dispatch table has no entry for \<open>'str'\<close>;
  and the execute phase, given that descriptor, returns with a state that differs from the
  earlier one in the decoded slot (the operands that are left) and in the log (the one
  informational event "str unimplemented") only: every register, every flag and the
  memory are unchanged.
\<close>

theorem store_unimplemented:
  assumes "take_bit 4 (drop_bit 24 word) \<in> {4, 5}"
    and "\<not> bit word 20"
  shows "\<exists>d. decode toSigned word p = ([], Inr d) \<and>
             d = [Num p, Str ''str'',
                  Str (reg_name (take_bit 4 (drop_bit 12 word))),
                  Str (reg_name (take_bit 4 (drop_bit 16 word))),
                  Bool (bit word 24),
                  Num (if bit word 23 then take_bit 12 word else - take_bit 12 word)] \<and>
             opcodes (Str ''str'') = None \<and>
             core_execute toSigned (s\<lparr>decoded := Some d\<rparr>) =
               Done (s\<lparr>decoded := Some (drop 2 d),
                       logger := logger s @ [Info ''str unimplemented'']\<rparr>)"
proof -
  let ?d = "[Num p, Str ''str'',
             Str (reg_name (take_bit 4 (drop_bit 12 word))),
             Str (reg_name (take_bit 4 (drop_bit 16 word))),
             Bool (bit word 24),
             Num (if bit word 23 then take_bit 12 word else - take_bit 12 word)]"
  have "bit (take_bit 4 (drop_bit 24 word)) 1 = bit word 25"
    by (simp add: bit_take_bit_iff bit_drop_bit_eq)
  moreover have "\<not> bit (take_bit 4 (drop_bit 24 word)) 1"
    using assms(1) by auto
  ultimately have I: "js_and (js_ushr word 25) 1 = 0" by (simp add: field1)
  have L: "js_and (js_ushr word 20) 1 = 0" using assms(2) by (simp add: field1)
  have "decode toSigned word p = ([], decodeDataTransfer word p)"
    using assms(1) by (auto simp add: decode_def class_field)
  also have "decodeDataTransfer word p = Inr ?d"
    by (simp add: decodeDataTransfer_def I L field1 field4 js_and_0xfff Let_def)
  finally have d: "decode toSigned word p = ([], Inr ?d)" .
  have o: "opcodes (Str ''str'') = None" by (simp add: opcodes_def)
  have e: "core_execute toSigned (s\<lparr>decoded := Some ?d\<rparr>) =
             Done (s\<lparr>decoded := Some (drop 2 ?d),
                     logger := logger s @ [Info ''str unimplemented'']\<rparr>)"
    by (simp add: core_execute_def js_index_def o log_def)
  from d o e show ?thesis by blast
qed


theorem store_unimplemented_witness:
  "take_bit 4 (drop_bit 24 (0xE5801004 :: int)) \<in> {4, 5} \<and> \<not> bit (0xE5801004 :: int) 20 \<and>
   decode toSigned32 0xE5801004 8 =
     ([], Inr [Num 8, Str ''str'', Str ''r1'', Str ''r0'', Bool True, Num 4]) \<and>
   core_execute toSigned32 ((new_ARM7TDMI zero_memory)
       \<lparr>decoded := Some [Num 8, Str ''str'', Str ''r1'', Str ''r0'', Bool True, Num 4]\<rparr>) =
     Done ((new_ARM7TDMI zero_memory)
       \<lparr>decoded := Some [Str ''r1'', Str ''r0'', Bool True, Num 4],
        logger := [Info ''str unimplemented'']\<rparr>)"
proof -
  have h1: "take_bit 4 (drop_bit 24 (0xE5801004 :: int)) \<in> {4, 5}" by simp
  have h2: "\<not> bit (0xE5801004 :: int) 20" by simp
  have l: "logger (new_ARM7TDMI zero_memory) = []" by (simp add: new_ARM7TDMI_def)
  have f: "reg_name 1 = ''r1''" "reg_name 0 = ''r0''"
    by (simp_all add: reg_name_def num_str_def)
  show ?thesis
    using h1 h2 store_unimplemented [OF h1 h2, of toSigned32 8 "new_ARM7TDMI zero_memory"]
    by (simp add: l f)
qed

section \<open>Status register accessors\<close>

text \<open>
  C6. Setting the packed flag nibble should leave bits 0 to 27 of the status register as
  they are. The mask of \<open>setNZCV\<close> is \<open>0x07ffffff\<close>, which also clears bit 27: from
  the status register \<open>0x08000000\<close>, \<open>setNZCV(0)\<close> gives 0, and bit 27 is lost.
\<close>

theorem setNZCV_clears_bit_27:
  "bit (cpsr core_with_bit_27) 27 \<and>
   cpsr (setNZCV 0 core_with_bit_27) = 0 \<and>
   \<not> bit (cpsr (setNZCV 0 core_with_bit_27)) 27"
proof -
  have before: "bit (0x08000000 :: int) 27"
  proof -
    have "(0x08000000 :: int) = 2 ^ 27" by simp
    then show ?thesis by (simp only: bit_exp_iff) simp
  qed
  have "(0x08000000 :: int) AND 0x07ffffff = 0" by simp
  then have after: "cpsr (setNZCV 0 core_with_bit_27) = 0"
    by (simp add: setNZCV_def core_with_bit_27_def js_and_int js_or_int js_shl_int js_ushr_int)
  show ?thesis using before after by (simp add: core_with_bit_27_def)
qed

text \<open>
  C10. \<open>setIFT(b)\<close> followed by \<open>getIFT()\<close> should give \<open>b\<close> back. \<open>getIFT\<close> shifts
  the status register right by 5 and does not mask the result to 3 bits, so every bit
  above the field comes along: with the Zero flag set, \<open>setIFT(6)\<close> and then
  \<open>getIFT()\<close> give \<open>0x2000006\<close>.
\<close>

theorem setIFT_getIFT_with_flag_set:
  "cpsr core_after_mov_0 = 0x40000000 \<and>
   getIFT (setIFT 6 core_after_mov_0) = 0x2000006 \<and>
   getIFT (setIFT 6 core_after_mov_0) \<noteq> 6"
proof -
  have c: "cpsr core_after_mov_0 = 0x40000000"
    by (simp add: core_after_mov_0_def op_mov_def reg_set_def setZ_def new_ARM7TDMI_def
        js_or_int)
  have "getIFT (setIFT 6 core_after_mov_0) = 0x2000006"
    by (simp add: getIFT_def setIFT_def c js_and_int js_or_int js_shl_int js_ushr_int)
  with c show ?thesis by simp
qed

section \<open>Compare and move\<close>




text \<open>
  C7. For every earlier state, every destination register \<open>`r${n}`\<close> and every operand,
  the move operation stores the operand in the destination register, sets the Zero flag
  (bit 30 of the status register) to whether the operand is 0, and leaves the Negative,
  Carry and Overflow flags (bits 31, 29 and 28) as they were.
\<close>

theorem mov_flag_law:
  "\<exists>s'. op_mov (reg_name n) Rn Op2 s = Done s' \<and>
        reg_get s' (reg_name n) = Some Op2 \<and>
        bit (cpsr s') 30 = (Op2 = 0) \<and>
        bit (cpsr s') 31 = bit (cpsr s) 31 \<and>
        bit (cpsr s') 29 = bit (cpsr s) 29 \<and>
        bit (cpsr s') 28 = bit (cpsr s) 28"
proof -
  let ?s1 = "reg_set (reg_name n) Op2 s"
  let ?s' = "setZ (Op2 = 0) ?s1"
  have c1: "cpsr ?s1 = cpsr s"
    by (simp add: reg_set_def reg_name_not_special)
  have "reg_get ?s1 (reg_name n) = Some Op2"
    by (simp add: reg_set_def reg_get_def reg_name_not_special)
  then have g: "reg_get ?s' (reg_name n) = Some Op2"
    by (subst setZ_state) (simp add: reg_get_def reg_name_not_special)
  have z: "bit (cpsr ?s') 30 = (Op2 = 0)" by (simp add: bit_setZ)
  have n: "bit (cpsr ?s') 31 = bit (cpsr s) 31" by (simp add: bit_setZ c1)
  have c: "bit (cpsr ?s') 29 = bit (cpsr s) 29" by (simp add: bit_setZ c1)
  have v: "bit (cpsr ?s') 28 = bit (cpsr s) 28" by (simp add: bit_setZ c1)
  have "op_mov (reg_name n) Rn Op2 s = Done ?s'" by (simp add: op_mov_def)
  with g z n c v show ?thesis by blast
qed

section \<open>Pipeline\<close>

text \<open>
  C1. After \<open>boot\<close> and one \<open>execute\<close> on a new core, the instruction that executes
  should be the descriptor of the first fetched word. The fetched slot is
  \<open>[address, word]\<close> and the decode phase spreads it into \<open>Decoder.decode(word, pc)\<close>,
  so the decoder takes the address for the word and the word for the program counter.
  With the branch \<open>0xEA000002\<close> at address 0, whose descriptor is \<open>[0, 'b', 16]\<close>,
  the core decodes the address 0 instead: the slot holds the Unknown descriptor
  \<open>[0xEA000002, '???']\<close> after \<open>boot\<close>, and that is what \<open>execute\<close> runs. The
  program counter is 8 when the instruction is handed to the execute phase, after the two
  fetches of \<open>boot\<close>, and 12 when \<open>execute\<close> returns, after its own fetch.
\<close>

theorem pipeline_lookahead_first_word:
  "decode toSigned24 0xEA000002 0 = ([], Inr [Num 0, Str ''b'', Num 16]) \<and>
   failure_of (boot toSigned24 (new_ARM7TDMI branch_at_0)) = None \<and>
   pc (state_of (boot toSigned24 (new_ARM7TDMI branch_at_0))) = 8 \<and>
   decoded (state_of (boot toSigned24 (new_ARM7TDMI branch_at_0))) =
     Some [Num 0xEA000002, Str ''???''] \<and>
   failure_of (execute toSigned24 (state_of (boot toSigned24 (new_ARM7TDMI branch_at_0)))) = None \<and>
   logger (state_of (execute toSigned24 (state_of (boot toSigned24 (new_ARM7TDMI branch_at_0))))) =
     [Fetched 0 0xEA000002, Error_unknown_DataProc_opcode 0, Fetched 4 0,
      Instr (Num 0xEA000002) (Str ''???'') [],
      Error_unknown_DataProc_opcode 0, Fetched 8 0] \<and>
   pc (state_of (execute toSigned24 (state_of (boot toSigned24 (new_ARM7TDMI branch_at_0))))) = 12"
  by (simp add: decode_branch_to_16 boot_branch_at_0 execute_after_boot_branch_at_0)

text \<open>
  C2. After the branch at address \<open>A\<close> with target \<open>T\<close> is decoded, the fetch of the
  same step should read from \<open>T\<close> and the fetch of the following step from \<open>T + 4\<close>.
  The decode phase hands the fetched slot \<open>[address, word]\<close> to
  \<open>Decoder.decode(word, pc)\<close> in that order (the slip of C1), so the branch in memory
  never reaches the decoded slot and \<open>_fetch\<close> never sees its target. With the branch
  \<open>0xEA000002\<close> at \<open>A = 0\<close>, whose target is \<open>T = 16\<close>, the slot holds an Unknown
  descriptor after the decode phase of \<open>boot\<close>; the fetch of \<open>boot\<close> that follows
  reads from 4 and the fetch of the following step reads from 8, that is from \<open>A + 4\<close>
  and \<open>A + 8\<close>, not from 16 and 20.
\<close>

theorem branch_flush_first_word:
  "decode toSigned24 0xEA000002 0 = ([], Inr [Num 0, Str ''b'', Num 16]) \<and>
   failure_of (boot toSigned24 (new_ARM7TDMI branch_at_0)) = None \<and>
   decoded (state_of (boot toSigned24 (new_ARM7TDMI branch_at_0))) =
     Some [Num 0xEA000002, Str ''???''] \<and>
   fetched (state_of (boot toSigned24 (new_ARM7TDMI branch_at_0))) = Some (4, 0) \<and>
   failure_of (execute toSigned24 (state_of (boot toSigned24 (new_ARM7TDMI branch_at_0)))) = None \<and>
   fetched (state_of (execute toSigned24 (state_of (boot toSigned24 (new_ARM7TDMI branch_at_0))))) =
     Some (8, 0) \<and>
   branched (state_of (execute toSigned24 (state_of (boot toSigned24 (new_ARM7TDMI branch_at_0))))) =
     False"
proof -
  have "\<not> branched (new_ARM7TDMI branch_at_0)"
    by (simp add: new_ARM7TDMI_def)
  then show ?thesis
    by (simp add: decode_branch_to_16 boot_branch_at_0 execute_after_boot_branch_at_0)
qed

end
